theory Spec2Isabelle
  imports Complex_Main
begin

section \<open>Values on the wire\<close>

text \<open>
  The views read \<open>request.data\<close>, the request body parsed from JSON into Python values:
  \<open>None\<close>, \<open>bool\<close>, \<open>int\<close>, \<open>float\<close>, \<open>str\<close>, \<open>list\<close> and \<open>dict\<close>.
  A Python \<open>str\<close> is modelled as a \<open>string\<close> with one \<open>char\<close> per character, so the
  model covers text in the 8-bit character range and \<open>length\<close> is Python's \<open>len\<close> there.
  A finite \<open>float\<close> is the rational it denotes.
\<close>

datatype json =
    JNull
  | JBool bool
  | JInt int
  | JFloat rat
  | JStr string
  | JArr "json list"
  | JObj "(string \<times> json) list"

text \<open>\<open>request.data\<close> as the keyword arguments \<open>**request.data\<close> hands to a schema.\<close>

type_synonym payload = "string \<rightharpoonup> json"

section \<open>Python built-ins the code relies on\<close>

text \<open>
  \<open>c.isspace()\<close> and \<open>s.strip()\<close> of a \<open>str\<close>, on the characters the model covers.
\<close>

definition isspace :: "char \<Rightarrow> bool" where
  "isspace c = ((of_char c :: nat) \<in> set [9, 10, 11, 12, 13, 28, 29, 30, 31, 32, 133, 160])"

definition strip :: "string \<Rightarrow> string" where
  "strip s = rev (dropWhile isspace (rev (dropWhile isspace s)))"

text \<open>
  \<open>int(s)\<close> on a string. The whitespace that \<open>int\<close> strips is narrower than
  \<open>isspace\<close>: of the ASCII characters only tab, the line breaks and the blank, and
  beyond ASCII the characters that are whitespace. Then come an optional sign and decimal
  digits, where single underscores may separate digits; the interpreter refuses more than
  4300 digits (its default limit). Anything else raises \<open>ValueError\<close> (\<open>None\<close> here).
\<close>

definition int_space :: "char \<Rightarrow> bool" where
  "int_space c = ((of_char c :: nat) \<in> set [9, 10, 11, 12, 13, 32, 133, 160])"

definition int_strip :: "string \<Rightarrow> string" where
  "int_strip s = rev (dropWhile int_space (rev (dropWhile int_space s)))"

definition isdigit :: "char \<Rightarrow> bool" where
  "isdigit c = ((48::nat) \<le> of_char c \<and> of_char c \<le> (57::nat))"

fun digits :: "bool \<Rightarrow> nat \<Rightarrow> string \<Rightarrow> nat option" where
  "digits after_digit acc [] = (if after_digit then Some acc else None)"
| "digits after_digit acc (c # cs) =
     (if isdigit c then digits True (10 * acc + (of_char c - 48)) cs
      else if c = CHR ''_'' \<and> after_digit \<and> cs \<noteq> [] then digits False acc cs
      else None)"

definition max_str_digits :: nat where
  "max_str_digits = 4300"

definition int_of_str :: "string \<Rightarrow> int option" where
  "int_of_str s =
     (case int_strip s of
        [] \<Rightarrow> None
      | c # cs \<Rightarrow>
          if length (filter isdigit (c # cs)) > max_str_digits then None
          else if c = CHR ''-'' then map_option (\<lambda>n. - int n) (digits False 0 cs)
          else if c = CHR ''+'' then map_option int (digits False 0 cs)
          else map_option int (digits False 0 (c # cs)))"

text \<open>\<open>str(i)\<close> of an integer, as an f-string formats it.\<close>

fun str_nat :: "nat \<Rightarrow> string" where
  "str_nat n =
     (if n < 10 then [''0123456789'' ! n]
      else str_nat (n div 10) @ [''0123456789'' ! (n mod 10)])"

declare str_nat.simps [simp del]

definition str_int :: "int \<Rightarrow> string" where
  "str_int i = (if i < 0 then CHR ''-'' # str_nat (nat (- i)) else str_nat (nat i))"

section \<open>models.py\<close>

text \<open>
  \<open>ExampleModel\<close>: the primary key \<open>id\<close> that Django adds, and the five declared fields.
  Timestamps are points on an integer time line (microseconds, say). \<open>description\<close> is a
  \<open>TextField\<close> without \<open>null=True\<close>, so the column holds text, never NULL.
\<close>

record ExampleModel =
  m_id :: int
  m_name :: string
  m_description :: string
  m_is_active :: bool
  m_created_at :: int
  m_updated_at :: int

text \<open>
  The table behind \<open>ExampleModel.objects\<close>: its rows in insertion order and the next value
  of the primary-key sequence.
\<close>

record table =
  rows :: "ExampleModel list"
  next_id :: int

datatype exn = DoesNotExist | Http404 | ValueError | NegativeIndexing | DatabaseError

text \<open>
  \<open>Meta.ordering = ["-created_at"]\<close>: \<open>objects.all()\<close> yields the rows by descending
  \<open>created_at\<close>. The database leaves the order of rows with equal \<open>created_at\<close> open; the
  model keeps them in insertion order.
\<close>

definition objects_all :: "table \<Rightarrow> ExampleModel list" where
  "objects_all t = sort_key (\<lambda>r. - m_created_at r) (rows t)"

text \<open>\<open>queryset.count()\<close>\<close>

definition count :: "ExampleModel list \<Rightarrow> int" where
  "count queryset = int (length queryset)"

text \<open>
  \<open>queryset[start:end]\<close>: Django refuses a negative bound by raising; otherwise the slice is
  OFFSET \<open>start\<close> LIMIT \<open>end - start\<close>, and the database refuses an offset that does
  not fit a signed 64-bit integer.
\<close>

definition slice :: "ExampleModel list \<Rightarrow> int \<Rightarrow> int \<Rightarrow> exn + ExampleModel list" where
  "slice queryset start stop =
     (if start < 0 \<or> stop < 0 then Inl NegativeIndexing
      else if start > 9223372036854775807 then Inl DatabaseError
      else Inr (take (nat (stop - start)) (drop (nat start) queryset)))"

text \<open>
  \<open>objects.get(pk=pk)\<close>, where \<open>pk\<close> is the path segment that the router hands to the
  view, a string: the integer field converts it with \<open>int\<close> and raises \<open>ValueError\<close>
  when it is no number; otherwise the result is the row with that primary key, or
  \<open>DoesNotExist\<close> (a number beyond the range of the column matches no row).
\<close>

definition objects_get :: "table \<Rightarrow> string \<Rightarrow> exn + ExampleModel" where
  "objects_get t pk =
     (case int_of_str pk of
        None \<Rightarrow> Inl ValueError
      | Some i \<Rightarrow>
          (case find (\<lambda>r. m_id r = i) (rows t) of
             None \<Rightarrow> Inl DoesNotExist
           | Some r \<Rightarrow> Inr r))"

text \<open>
  \<open>objects.create(name=..., description=..., is_active=...)\<close>: the sequence gives the id,
  and the row is appended. The insert reads the clock twice: \<open>auto_now_add\<close> stamps
  \<open>created_at\<close> with the first reading \<open>now\<close>, then \<open>auto_now\<close> stamps \<open>updated_at\<close>
  with the second reading \<open>now'\<close>.
\<close>

definition objects_create ::
  "table \<Rightarrow> int \<Rightarrow> int \<Rightarrow> string \<Rightarrow> string \<Rightarrow> bool \<Rightarrow> ExampleModel \<times> table" where
  "objects_create t now now' name description is_active =
     (let inst = \<lparr>m_id = next_id t, m_name = name, m_description = description,
                  m_is_active = is_active, m_created_at = now, m_updated_at = now'\<rparr>
      in (inst, \<lparr>rows = rows t @ [inst], next_id = next_id t + 1\<rparr>))"

text \<open>
  \<open>instance.save()\<close> on a fetched instance: \<open>auto_now\<close> sets \<open>updated_at\<close> to the clock
  reading \<open>now\<close> of the save, then the row with the instance's primary key is overwritten.
\<close>

definition save :: "table \<Rightarrow> int \<Rightarrow> ExampleModel \<Rightarrow> ExampleModel \<times> table" where
  "save t now inst =
     (let inst' = inst\<lparr>m_updated_at := now\<rparr>
      in (inst', t\<lparr>rows := map (\<lambda>r. if m_id r = m_id inst' then inst' else r) (rows t)\<rparr>))"

text \<open>\<open>instance.delete()\<close>: the row with the instance's primary key is removed.\<close>

definition delete :: "table \<Rightarrow> ExampleModel \<Rightarrow> table" where
  "delete t inst = t\<lparr>rows := filter (\<lambda>r. m_id r \<noteq> m_id inst) (rows t)\<rparr>"

section \<open>serializers.py\<close>

subsection \<open>Field validation of the schema library\<close>

text \<open>
  One entry of \<open>ValidationError.errors()\<close>: the error type and the location, the path of the
  offending field (the message and the echoed input are left out).
\<close>

record error_detail =
  e_type :: string
  e_loc :: "string list"

definition err :: "string \<Rightarrow> string \<Rightarrow> error_detail list" where
  "err ty field = [\<lparr>e_type = ty, e_loc = [field]\<rparr>]"

text \<open>A field annotated \<open>str\<close>: only a string is accepted (numbers are not coerced).\<close>

fun str_type :: "string \<Rightarrow> json \<Rightarrow> error_detail list + string" where
  "str_type field (JStr s) = Inr s"
| "str_type field v = Inl (err ''string_type'' field)"

text \<open>
  \<open>Field(..., min_length=1, max_length=255)\<close> on a \<open>str\<close>: the type check, then the two
  length bounds on the string as given. Nothing strips the string first.
\<close>

definition str_min_max :: "string \<Rightarrow> nat \<Rightarrow> nat \<Rightarrow> json \<Rightarrow> error_detail list + string" where
  "str_min_max field min_length max_length v =
     (case str_type field v of
        Inl e \<Rightarrow> Inl e
      | Inr s \<Rightarrow>
          if length s < min_length then Inl (err ''string_too_short'' field)
          else if length s > max_length then Inl (err ''string_too_long'' field)
          else Inr s)"

text \<open>\<open>s.lower()\<close> on the ASCII letters.\<close>

definition lower :: "string \<Rightarrow> string" where
  "lower s =
     map (\<lambda>c. case map_of (zip ''ABCDEFGHIJKLMNOPQRSTUVWXYZ'' ''abcdefghijklmnopqrstuvwxyz'') c of
                None \<Rightarrow> c
              | Some l \<Rightarrow> l) s"

text \<open>
  A field annotated \<open>bool\<close>, in the library's default (lax) mode: a boolean as it is, the
  numbers 0 and 1, and the usual spellings of yes and no in a string; anything else is an
  error. The error is \<open>bool_parsing\<close> for a string, for another integer that fits 64 bits
  and for another float that is a whole number, and \<open>bool_type\<close> otherwise.
\<close>

fun bool_type :: "string \<Rightarrow> json \<Rightarrow> error_detail list + bool" where
  "bool_type field (JBool b) = Inr b"
| "bool_type field (JInt i) =
     (if i = 0 then Inr False else if i = 1 then Inr True
      else if - 9223372036854775808 \<le> i \<and> i \<le> 9223372036854775807
      then Inl (err ''bool_parsing'' field)
      else Inl (err ''bool_type'' field))"
| "bool_type field (JFloat x) =
     (if x = 0 then Inr False else if x = 1 then Inr True
      else if x = of_int \<lfloor>x\<rfloor> then Inl (err ''bool_parsing'' field)
      else Inl (err ''bool_type'' field))"
| "bool_type field (JStr s) =
     (if s = ''0'' \<or> lower s \<in> set [''f'', ''n'', ''no'', ''off'', ''false''] then Inr False
      else if s = ''1'' \<or> lower s \<in> set [''t'', ''y'', ''on'', ''yes'', ''true''] then Inr True
      else Inl (err ''bool_parsing'' field))"
| "bool_type field v = Inl (err ''bool_type'' field)"

text \<open>\<open>Optional[T]\<close>: \<open>None\<close> is accepted as \<open>None\<close>, any other value goes to \<open>T\<close>.\<close>

definition optional ::
  "(json \<Rightarrow> error_detail list + 'a) \<Rightarrow> json \<Rightarrow> error_detail list + 'a option" where
  "optional validate v =
     (if v = JNull then Inr None
      else case validate v of Inl e \<Rightarrow> Inl e | Inr x \<Rightarrow> Inr (Some x))"

text \<open>
  A field of a schema: a required field (\<open>Field(...)\<close>) that is absent is the error
  \<open>missing\<close>; a field with a default takes the default when absent, without validation.
\<close>

definition required ::
  "string \<Rightarrow> (json \<Rightarrow> error_detail list + 'a) \<Rightarrow> payload \<Rightarrow> error_detail list + 'a" where
  "required field validate data =
     (case data field of None \<Rightarrow> Inl (err ''missing'' field) | Some v \<Rightarrow> validate v)"

definition with_default ::
  "string \<Rightarrow> 'a \<Rightarrow> (json \<Rightarrow> error_detail list + 'a) \<Rightarrow> payload \<Rightarrow> error_detail list + 'a" where
  "with_default field dflt validate data =
     (case data field of None \<Rightarrow> Inr dflt | Some v \<Rightarrow> validate v)"

definition errors :: "error_detail list + 'a \<Rightarrow> error_detail list" where
  "errors r = (case r of Inl e \<Rightarrow> e | Inr _ \<Rightarrow> [])"

subsection \<open>The schemas\<close>

record ExampleCreateRequest =
  c_name :: string
  c_description :: "string option"
  c_is_active :: bool

text \<open>
  \<open>ExampleCreateRequest(**data)\<close>: every field is validated, in declaration order; the
  errors of all fields are collected, and the instance exists only when there is none.
  Keys that are not fields are ignored.
\<close>

definition ExampleCreateRequest :: "payload \<Rightarrow> error_detail list + ExampleCreateRequest" where
  "ExampleCreateRequest data =
     (let name = required ''name'' (str_min_max ''name'' 1 255) data;
          description =
            with_default ''description'' None (optional (str_type ''description'')) data;
          is_active = with_default ''is_active'' True (bool_type ''is_active'') data
      in case (name, description, is_active) of
           (Inr n, Inr d, Inr a) \<Rightarrow> Inr \<lparr>c_name = n, c_description = d, c_is_active = a\<rparr>
         | _ \<Rightarrow> Inl (errors name @ errors description @ errors is_active))"

record ExampleUpdateRequest =
  u_name :: "string option"
  u_description :: "string option"
  u_is_active :: "bool option"

definition ExampleUpdateRequest :: "payload \<Rightarrow> error_detail list + ExampleUpdateRequest" where
  "ExampleUpdateRequest data =
     (let name = with_default ''name'' None (optional (str_min_max ''name'' 1 255)) data;
          description =
            with_default ''description'' None (optional (str_type ''description'')) data;
          is_active =
            with_default ''is_active'' None (optional (bool_type ''is_active'')) data
      in case (name, description, is_active) of
           (Inr n, Inr d, Inr a) \<Rightarrow> Inr \<lparr>u_name = n, u_description = d, u_is_active = a\<rparr>
         | _ \<Rightarrow> Inl (errors name @ errors description @ errors is_active))"

text \<open>
  \<open>ExampleResponse\<close>; the two timestamps stand for their \<open>isoformat()\<close> renderings.
\<close>

record ExampleResponse =
  r_id :: int
  r_name :: string
  r_description :: string
  r_is_active :: bool
  r_created_at :: int
  r_updated_at :: int

text \<open>
  \<open>x or ""\<close> where \<open>x\<close> is \<open>None\<close> or a string: \<open>None\<close> and the empty string are
  falsy and give \<open>""\<close>, any other string gives itself.
\<close>

definition or_empty :: "string option \<Rightarrow> string" where
  "or_empty x = (case x of None \<Rightarrow> [] | Some s \<Rightarrow> if s = [] then [] else s)"

definition from_model :: "ExampleModel \<Rightarrow> ExampleResponse" where
  "from_model inst =
     \<lparr>r_id = m_id inst, r_name = m_name inst,
      r_description = or_empty (Some (m_description inst)),
      r_is_active = m_is_active inst, r_created_at = m_created_at inst,
      r_updated_at = m_updated_at inst\<rparr>"

record ExampleListResponse =
  l_count :: int
  l_next :: "string option"
  l_previous :: "string option"
  l_results :: "ExampleResponse list"

section \<open>views.py\<close>

text \<open>
  What a view hands back: a \<open>Response\<close> with its status and data, or an exception that
  leaves the view (\<open>Inl\<close>).
\<close>

datatype body =
    Item ExampleResponse
  | Listing ExampleListResponse
  | ValidationErrors "error_detail list"
  | NoContent

record Response =
  status :: nat
  data :: body

type_synonym outcome = "exn + Response"

text \<open>
  The status the client sees: the framework turns \<open>Http404\<close> into a 404 response; any other
  exception is not handled and ends as the server error 500.
\<close>

definition status_code :: "outcome \<Rightarrow> nat" where
  "status_code out =
     (case out of Inr resp \<Rightarrow> status resp | Inl Http404 \<Rightarrow> 404 | Inl _ \<Rightarrow> 500)"

subsection \<open>The request of the list view\<close>

text \<open>
  The list view reads two things of the request: \<open>request.GET.get("page", 1)\<close>, where
  \<open>GET\<close> maps a query parameter to its (last) value, and \<open>request.build_absolute_uri()\<close>,
  the absolute URI of the request itself, query string included.
\<close>

record request =
  GET :: "string \<rightharpoonup> string"
  build_absolute_uri :: string

subsection \<open>ExampleViewSet\<close>

definition list_view :: "table \<Rightarrow> request \<Rightarrow> outcome" where
  "list_view t request =
     (let queryset = objects_all t;
          page_size = 20
      in case (case GET request ''page'' of None \<Rightarrow> Some 1 | Some s \<Rightarrow> int_of_str s) of
           None \<Rightarrow> Inl ValueError
         | Some page \<Rightarrow>
             (let start = (page - 1) * page_size;
                  stop = start + page_size
              in case slice queryset start stop of
                   Inl e \<Rightarrow> Inl e
                 | Inr items \<Rightarrow>
                     (let total_count = count queryset;
                          results = map from_model items;
                          next_url =
                            (if stop < total_count
                             then Some (build_absolute_uri request @ ''?page='' @ str_int (page + 1))
                             else None);
                          previous_url =
                            (if page > 1
                             then Some (build_absolute_uri request @ ''?page='' @ str_int (page - 1))
                             else None)
                      in Inr \<lparr>status = 200,
                              data = Listing \<lparr>l_count = total_count, l_next = next_url,
                                               l_previous = previous_url,
                                               l_results = results\<rparr>\<rparr>)))"

text \<open>
  The views that write take the table and the clock readings and return the table. \<open>pk\<close>
  is the path segment that the router matches after \<open>examples/\<close> (any text without a
  slash or a dot) and hands to the view as a string. A view catches \<open>DoesNotExist\<close> and
  raises \<open>Http404\<close> for it; any other exception of \<open>objects.get\<close> leaves the view. The
  permission check of the framework runs before a view and is no part of it.
\<close>

definition create :: "table \<Rightarrow> int \<Rightarrow> int \<Rightarrow> payload \<Rightarrow> outcome \<times> table" where
  "create t now now' request_data =
     (case ExampleCreateRequest request_data of
        Inl e \<Rightarrow> (Inr \<lparr>status = 400, data = ValidationErrors e\<rparr>, t)
      | Inr validated_data \<Rightarrow>
          (let (inst, t') =
                 objects_create t now now' (c_name validated_data)
                   (or_empty (c_description validated_data)) (c_is_active validated_data)
           in (Inr \<lparr>status = 201, data = Item (from_model inst)\<rparr>, t')))"

definition retrieve :: "table \<Rightarrow> string \<Rightarrow> outcome" where
  "retrieve t pk =
     (case objects_get t pk of
        Inl DoesNotExist \<Rightarrow> Inl Http404
      | Inl e \<Rightarrow> Inl e
      | Inr inst \<Rightarrow> Inr \<lparr>status = 200, data = Item (from_model inst)\<rparr>)"

definition update :: "table \<Rightarrow> int \<Rightarrow> string \<Rightarrow> payload \<Rightarrow> outcome \<times> table" where
  "update t now pk request_data =
     (case objects_get t pk of
        Inl DoesNotExist \<Rightarrow> (Inl Http404, t)
      | Inl e \<Rightarrow> (Inl e, t)
      | Inr inst \<Rightarrow>
          (case ExampleUpdateRequest request_data of
             Inl e \<Rightarrow> (Inr \<lparr>status = 400, data = ValidationErrors e\<rparr>, t)
           | Inr validated_data \<Rightarrow>
               (let inst1 = (case u_name validated_data of
                               None \<Rightarrow> inst | Some n \<Rightarrow> inst\<lparr>m_name := n\<rparr>);
                    inst2 = (case u_description validated_data of
                               None \<Rightarrow> inst1 | Some d \<Rightarrow> inst1\<lparr>m_description := d\<rparr>);
                    inst3 = (case u_is_active validated_data of
                               None \<Rightarrow> inst2 | Some a \<Rightarrow> inst2\<lparr>m_is_active := a\<rparr>);
                    (saved, t') = save t now inst3
                in (Inr \<lparr>status = 200, data = Item (from_model saved)\<rparr>, t'))))"

definition destroy :: "table \<Rightarrow> string \<Rightarrow> outcome \<times> table" where
  "destroy t pk =
     (case objects_get t pk of
        Inl DoesNotExist \<Rightarrow> (Inl Http404, t)
      | Inl e \<Rightarrow> (Inl e, t)
      | Inr inst \<Rightarrow> (Inr \<lparr>status = 204, data = NoContent\<rparr>, delete t inst))"

section \<open>Auxiliary notions for the properties\<close>

text \<open>A schema accepts a payload when validation yields an instance.\<close>

definition accepted :: "'e + 'a \<Rightarrow> bool" where
  "accepted r = (case r of Inl _ \<Rightarrow> False | Inr _ \<Rightarrow> True)"

text \<open>
  What \<open>update\<close> assigns to the fetched instance before saving it: each field of the
  validated request that is not \<open>None\<close> overwrites the instance's field.
\<close>

definition assigned :: "ExampleUpdateRequest \<Rightarrow> ExampleModel \<Rightarrow> ExampleModel" where
  "assigned v r =
     r\<lparr>m_name := (case u_name v of None \<Rightarrow> m_name r | Some n \<Rightarrow> n),
       m_description := (case u_description v of None \<Rightarrow> m_description r | Some d \<Rightarrow> d),
       m_is_active := (case u_is_active v of None \<Rightarrow> m_is_active r | Some a \<Rightarrow> a)\<rparr>"

text \<open>
  The table that \<open>setUp\<close> of \<open>tests/test_views.py\<close> builds: two items, created one after
  the other.
\<close>

definition example1 :: ExampleModel where
  "example1 = \<lparr>m_id = 1, m_name = ''Test Example 1'', m_description = ''First test example'',
               m_is_active = True, m_created_at = 100, m_updated_at = 100\<rparr>"

definition example2 :: ExampleModel where
  "example2 = \<lparr>m_id = 2, m_name = ''Test Example 2'', m_description = ''Second test example'',
               m_is_active = False, m_created_at = 101, m_updated_at = 101\<rparr>"

definition setUp :: table where
  "setUp = \<lparr>rows = [example1, example2], next_id = 3\<rparr>"

text \<open>A table of 25 items, numbered in the order of their creation.\<close>

definition items25 :: table where
  "items25 =
     \<lparr>rows = map (\<lambda>i. \<lparr>m_id = i, m_name = ''item'', m_description = [], m_is_active = True,
                        m_created_at = i, m_updated_at = i\<rparr>) [1..25],
      next_id = 26\<rparr>"

subsection \<open>The specification's wording, for comparison with the code\<close>

text \<open>
  The Create schema as the specification words it: \<open>name\<close> is present and, once trimmed,
  non-empty and of 1 to 255 characters.
\<close>

definition spec_create_accepts :: "payload \<Rightarrow> bool" where
  "spec_create_accepts request_data =
     (case request_data ''name'' of
        Some (JStr s) \<Rightarrow> strip s \<noteq> [] \<and> 1 \<le> length (strip s) \<and> length (strip s) \<le> 255
      | _ \<Rightarrow> False)"

text \<open>
  The round trip as the specification words it: the response carries the payload's
  \<open>name\<close>, its \<open>description\<close> (the empty string when omitted) and its \<open>is_active\<close>
  (true when omitted), each exactly.
\<close>

definition spec_reproduces :: "payload \<Rightarrow> ExampleResponse \<Rightarrow> bool" where
  "spec_reproduces request_data resp =
     (request_data ''name'' = Some (JStr (r_name resp)) \<and>
      (case request_data ''description'' of
         None \<Rightarrow> r_description resp = []
       | Some v \<Rightarrow> v = JStr (r_description resp)) \<and>
      (case request_data ''is_active'' of
         None \<Rightarrow> r_is_active resp = True
       | Some v \<Rightarrow> v = JBool (r_is_active resp)))"

text \<open>
  The partial update as the specification words it, between the record before (\<open>r\<close>) and
  after (\<open>r'\<close>) an update that supplies only the name \<open>n\<close>.
\<close>

definition spec_partial_update :: "ExampleModel \<Rightarrow> ExampleModel \<Rightarrow> string \<Rightarrow> bool" where
  "spec_partial_update r r' n =
     (m_name r' = n \<and> m_description r' = m_description r \<and> m_is_active r' = m_is_active r \<and>
      m_id r' = m_id r \<and> m_created_at r' = m_created_at r \<and>
      m_updated_at r < m_updated_at r')"

section \<open>Properties of the store\<close>

lemma int_of_str_1: "int_of_str ''1'' = Some 1"
  by (simp add: int_of_str_def int_strip_def int_space_def isdigit_def max_str_digits_def)

lemma int_of_str_2: "int_of_str ''2'' = Some 2"
  by (simp add: int_of_str_def int_strip_def int_space_def isdigit_def max_str_digits_def)

lemma int_of_str_999: "int_of_str ''999'' = Some 999"
  by (simp add: int_of_str_def int_strip_def int_space_def isdigit_def max_str_digits_def)

lemma int_of_str_abc: "int_of_str ''abc'' = None"
  by (simp add: int_of_str_def int_strip_def int_space_def isdigit_def max_str_digits_def)

lemma objects_get_not_a_number:
  "int_of_str pk = None \<Longrightarrow> objects_get t pk = Inl ValueError"
  by (simp add: objects_get_def)

lemma objects_get_missing:
  "int_of_str pk = Some i \<Longrightarrow> i \<notin> set (map m_id (rows t)) \<Longrightarrow>
   objects_get t pk = Inl DoesNotExist"
  by (auto simp: objects_get_def find_None_iff split: option.splits)

lemma objects_get_found:
  "objects_get t pk = Inr r \<Longrightarrow> int_of_str pk = Some (m_id r) \<and> r \<in> set (rows t)"
  by (auto simp: objects_get_def find_Some_iff split: option.splits)

lemma find_replaced:
  "find P xs = Some r \<Longrightarrow> P r' \<Longrightarrow> find P (map (\<lambda>x. if P x then r' else x) xs) = Some r'"
  by (induction xs) (auto split: if_splits)

lemma objects_get_replaced:
  assumes "objects_get t pk = Inr r" and "m_id r' = m_id r"
  shows "objects_get (t\<lparr>rows := map (\<lambda>x. if m_id x = m_id r then r' else x) (rows t)\<rparr>) pk =
           Inr r'"
proof -
  have i: "int_of_str pk = Some (m_id r)"
    using assms(1) by (simp add: objects_get_found)
  have "find (\<lambda>x. m_id x = m_id r) (rows t) = Some r"
    using assms(1) i by (auto simp: objects_get_def split: option.splits)
  from find_replaced [where P = "\<lambda>x. m_id x = m_id r", OF this assms(2)]
  show ?thesis by (simp add: objects_get_def i)
qed

lemma length_objects_all: "length (objects_all t) = length (rows t)"
  by (simp add: objects_all_def)

lemma objects_get_example1: "objects_get setUp ''1'' = Inr example1"
  by (simp add: objects_get_def int_of_str_1 setUp_def example1_def)

lemma setUp_no_999: "999 \<notin> set (map m_id (rows setUp))"
  by (simp add: setUp_def example1_def example2_def)

section \<open>Properties of the schemas\<close>

lemma accepted_simps: "accepted (Inr x)" "\<not> accepted (Inl e)"
  by (simp_all add: accepted_def)

lemma str_type_Inr: "str_type f v = Inr s \<Longrightarrow> v = JStr s"
  by (cases v) simp_all

lemma str_min_max_Inr: "str_min_max f lo hi v = Inr s \<Longrightarrow> v = JStr s"
  by (auto simp: str_min_max_def split: sum.splits if_splits dest: str_type_Inr)

lemma str_min_max_accepted:
  "accepted (str_min_max f lo hi v) \<longleftrightarrow> (\<exists>s. v = JStr s \<and> lo \<le> length s \<and> length s \<le> hi)"
  by (cases v) (auto simp: accepted_def str_min_max_def)

lemma create_schema_accepted:
  "accepted (ExampleCreateRequest request_data) \<longleftrightarrow>
     accepted (required ''name'' (str_min_max ''name'' 1 255) request_data) \<and>
     accepted (with_default ''description'' None (optional (str_type ''description''))
       request_data) \<and>
     accepted (with_default ''is_active'' True (bool_type ''is_active'') request_data)"
  by (auto simp: ExampleCreateRequest_def Let_def accepted_def split: sum.splits)

lemma create_schema_fields:
  assumes "ExampleCreateRequest request_data = Inr v"
  shows "required ''name'' (str_min_max ''name'' 1 255) request_data = Inr (c_name v) \<and>
         with_default ''description'' None (optional (str_type ''description'')) request_data =
           Inr (c_description v) \<and>
         with_default ''is_active'' True (bool_type ''is_active'') request_data =
           Inr (c_is_active v)"
  using assms by (auto simp: ExampleCreateRequest_def Let_def split: sum.splits)

lemma optional_field_null:
  "with_default f None (optional validate) (request_data(k \<mapsto> JNull)) =
   with_default f None (optional validate) (request_data(k := None))"
  by (simp add: with_default_def optional_def)

lemma update_schema_null:
  "ExampleUpdateRequest (request_data(k \<mapsto> JNull)) =
   ExampleUpdateRequest (request_data(k := None))"
  unfolding ExampleUpdateRequest_def optional_field_null ..

lemma update_schema_name_only:
  assumes "request_data ''name'' = Some (JStr n)" and "1 \<le> length n" and "length n \<le> 255"
    and "request_data ''description'' = None" and "request_data ''is_active'' = None"
  shows "ExampleUpdateRequest request_data =
           Inr \<lparr>u_name = Some n, u_description = None, u_is_active = None\<rparr>"
  using assms
  by (auto simp: ExampleUpdateRequest_def with_default_def optional_def str_min_max_def)

lemma update_schema_empty_name:
  "ExampleUpdateRequest [''name'' \<mapsto> JStr []] =
     Inl [\<lparr>e_type = ''string_too_short'', e_loc = [''name'']\<rparr>]"
  by (simp add: ExampleUpdateRequest_def with_default_def optional_def str_min_max_def err_def
      errors_def)

section \<open>Properties of the views\<close>

lemma assigned_id: "m_id (assigned v r) = m_id r"
  by (simp add: assigned_def)

lemma update_valid:
  assumes "objects_get t pk = Inr r" and "ExampleUpdateRequest request_data = Inr v"
  shows "update t now pk request_data =
           (Inr \<lparr>status = 200,
                 data = Item (from_model ((assigned v r)\<lparr>m_updated_at := now\<rparr>))\<rparr>,
            t\<lparr>rows := map (\<lambda>x. if m_id x = m_id r
                                then (assigned v r)\<lparr>m_updated_at := now\<rparr> else x)
                         (rows t)\<rparr>)"
  using assms
  by (cases "u_name v"; cases "u_description v"; cases "u_is_active v")
    (simp_all add: update_def save_def Let_def assigned_def)

lemma update_invalid:
  assumes "objects_get t pk = Inr r" and "ExampleUpdateRequest request_data = Inl e"
  shows "update t now pk request_data = (Inr \<lparr>status = 400, data = ValidationErrors e\<rparr>, t)"
  using assms by (simp add: update_def)

subsection \<open>Update of a record that does not exist\<close>

text \<open>
  When \<open>pk\<close> reads as a number and no record of the table has that id, \<open>update\<close> raises
  \<open>Http404\<close>, which the client sees as status 404, whatever the payload is: the payload is
  not validated, so a payload that the Update schema rejects gets 404 as well, not 400. The
  table is returned as it was.
\<close>

lemma update_missing_number:
  assumes "int_of_str pk = Some i" and "i \<notin> set (map m_id (rows t))"
  shows "update t now pk request_data = (Inl Http404, t) \<and>
         status_code (fst (update t now pk request_data)) = 404"
  using objects_get_missing [OF assms] by (simp add: update_def status_code_def)

text \<open>
  On the table of the tests, id 999 does not exist; the payload with the empty name is one
  that the Update schema rejects.
\<close>

lemma update_missing_999:
  "\<not> accepted (ExampleUpdateRequest [''name'' \<mapsto> JStr []]) \<and>
   update setUp 200 ''999'' [''name'' \<mapsto> JStr []] = (Inl Http404, setUp) \<and>
   status_code (fst (update setUp 200 ''999'' [''name'' \<mapsto> JStr []])) = 404"
proof -
  have v: "\<not> accepted (ExampleUpdateRequest [''name'' \<mapsto> JStr []])"
    by (simp add: update_schema_empty_name accepted_def)
  show ?thesis
    by (intro conjI v update_missing_number [OF int_of_str_999 setUp_no_999, THEN conjunct1]
        update_missing_number [OF int_of_str_999 setUp_no_999, THEN conjunct2])
qed

text \<open>
  C1, at an input where the code departs from it. The path segment \<open>abc\<close> is no number,
  so it is the id of no record, in any table. \<open>objects.get\<close> raises \<open>ValueError\<close> for it,
  \<open>update\<close> catches \<open>DoesNotExist\<close> only, and the client gets status 500 where the claim
  says 404. The payload is not validated and the table is returned as it was.
\<close>

theorem update_not_a_number:
  "int_of_str ''abc'' = None \<and>
   update t now ''abc'' request_data = (Inl ValueError, t) \<and>
   status_code (fst (update t now ''abc'' request_data)) = 500"
  using objects_get_not_a_number [OF int_of_str_abc, of t]
  by (simp add: int_of_str_abc update_def status_code_def)

subsection \<open>What the Create schema accepts\<close>

text \<open>
  The schema does not trim: a name of one space is accepted, although nothing is left of it
  after trimming. And the name alone does not decide: a payload with a good name and a
  number as description is rejected.
\<close>

theorem create_schema_trimmed_counterexample:
  "accepted (ExampleCreateRequest [''name'' \<mapsto> JStr '' '']) \<and>
   \<not> spec_create_accepts [''name'' \<mapsto> JStr '' ''] \<and>
   \<not> accepted (ExampleCreateRequest [''name'' \<mapsto> JStr ''a'', ''description'' \<mapsto> JInt 3]) \<and>
   spec_create_accepts [''name'' \<mapsto> JStr ''a'', ''description'' \<mapsto> JInt 3]"
  by (simp add: ExampleCreateRequest_def required_def with_default_def optional_def
      str_min_max_def accepted_def spec_create_accepts_def strip_def isspace_def err_def
      errors_def)

text \<open>
  C2, as the code has it. The Create schema accepts a payload exactly when \<open>name\<close> is
  present and is a string of 1 to 255 characters, counted as given with no trimming (so a
  name made of whitespace only is accepted), \<open>description\<close> is absent, null or a string,
  and \<open>is_active\<close> is absent or a value that validates as a boolean.
\<close>

theorem create_schema_accepts_iff:
  "accepted (ExampleCreateRequest request_data) \<longleftrightarrow>
     (\<exists>s. request_data ''name'' = Some (JStr s) \<and> 1 \<le> length s \<and> length s \<le> 255) \<and>
     (request_data ''description'' = None \<or> request_data ''description'' = Some JNull \<or>
        (\<exists>d. request_data ''description'' = Some (JStr d))) \<and>
     (request_data ''is_active'' = None \<or>
        (\<exists>v. request_data ''is_active'' = Some v \<and> accepted (bool_type ''is_active'' v)))"
proof -
  have n: "accepted (required ''name'' (str_min_max ''name'' 1 255) request_data) \<longleftrightarrow>
      (\<exists>s. request_data ''name'' = Some (JStr s) \<and> 1 \<le> length s \<and> length s \<le> 255)"
    by (cases "request_data ''name''")
      (simp_all add: required_def accepted_simps str_min_max_accepted)
  have d: "accepted (with_default ''description'' None (optional (str_type ''description''))
        request_data) \<longleftrightarrow>
      (request_data ''description'' = None \<or> request_data ''description'' = Some JNull \<or>
        (\<exists>d. request_data ''description'' = Some (JStr d)))"
  proof (cases "request_data ''description''")
    case None
    then show ?thesis by (simp add: with_default_def accepted_simps)
  next
    case (Some v)
    then show ?thesis
      by (cases v) (simp_all add: with_default_def optional_def accepted_def)
  qed
  have a: "accepted (with_default ''is_active'' True (bool_type ''is_active'') request_data) \<longleftrightarrow>
      (request_data ''is_active'' = None \<or>
        (\<exists>v. request_data ''is_active'' = Some v \<and> accepted (bool_type ''is_active'' v)))"
    by (cases "request_data ''is_active''") (simp_all add: with_default_def accepted_simps)
  show ?thesis
    unfolding create_schema_accepted n d a ..
qed

text \<open>
  The payload of \<open>test_create_example\<close> is accepted, one with a whitespace name too, and
  one without a name is not.
\<close>

theorem create_schema_accepts_iff_witness:
  "accepted (ExampleCreateRequest
     [''name'' \<mapsto> JStr ''New Test Example'',
      ''description'' \<mapsto> JStr ''A newly created test example'',
      ''is_active'' \<mapsto> JBool True]) \<and>
   accepted (ExampleCreateRequest [''name'' \<mapsto> JStr '' '']) \<and>
   \<not> accepted (ExampleCreateRequest [''is_active'' \<mapsto> JBool True])"
  using create_schema_accepts_iff [of "[''name'' \<mapsto> JStr ''New Test Example'',
      ''description'' \<mapsto> JStr ''A newly created test example'',
      ''is_active'' \<mapsto> JBool True]"]
    create_schema_accepts_iff [of "[''name'' \<mapsto> JStr '' '']"]
    create_schema_accepts_iff [of "[''is_active'' \<mapsto> JBool True]"]
  by (simp add: accepted_def)

subsection \<open>The page parameter of the list view\<close>

text \<open>
  When \<open>page\<close> is absent, or reads as an integer from 1 on whose offset the database
  takes, the list view answers 200 with a list body, for every table.
\<close>

lemma list_view_page_from_1:
  assumes "GET request ''page'' = None \<or>
           (\<exists>s p. GET request ''page'' = Some s \<and> int_of_str s = Some p \<and> 1 \<le> p \<and>
              (p - 1) * 20 \<le> 9223372036854775807)"
  shows "\<exists>body. list_view t request = Inr \<lparr>status = 200, data = Listing body\<rparr> \<and>
           l_count body = count (objects_all t)"
  using assms by (auto simp: list_view_def slice_def Let_def)

text \<open>
  C3, at the inputs where the code departs from it. A \<open>page\<close> that is not a number makes
  \<open>int\<close> raise \<open>ValueError\<close>, and page 0 makes the slice start at -20, which the queryset
  refuses; nothing catches either, so the client gets status 500 and no list body, for
  every table and request URI.
\<close>

theorem list_view_bad_page:
  "list_view t \<lparr>GET = [''page'' \<mapsto> ''abc''], build_absolute_uri = uri\<rparr> = Inl ValueError \<and>
   status_code (list_view t \<lparr>GET = [''page'' \<mapsto> ''abc''], build_absolute_uri = uri\<rparr>) = 500 \<and>
   list_view t \<lparr>GET = [''page'' \<mapsto> ''0''], build_absolute_uri = uri\<rparr> = Inl NegativeIndexing \<and>
   status_code (list_view t \<lparr>GET = [''page'' \<mapsto> ''0''], build_absolute_uri = uri\<rparr>) = 500"
  by (simp add: list_view_def int_of_str_def int_strip_def int_space_def isdigit_def
      max_str_digits_def slice_def status_code_def)

subsection \<open>Two pages of 25 records\<close>

text \<open>
  C4. With 25 records in the table, the list view answers \<open>page=1\<close> with status 200, the
  first 20 records in list order, a \<open>next\<close> link and no \<open>previous\<close> link, and answers
  \<open>page=2\<close> with status 200, the remaining 5 records, no \<open>next\<close> link and a \<open>previous\<close>
  link; \<open>count\<close> is 25 in both.
\<close>

theorem list_pagination_boundary:
  assumes "length (rows t) = 25"
    and "GET request1 ''page'' = Some ''1''"
    and "GET request2 ''page'' = Some ''2''"
  shows "\<exists>page1 page2.
           list_view t request1 = Inr \<lparr>status = 200, data = Listing page1\<rparr> \<and>
           l_results page1 = map from_model (take 20 (objects_all t)) \<and>
           length (l_results page1) = 20 \<and>
           l_next page1 \<noteq> None \<and> l_previous page1 = None \<and> l_count page1 = 25 \<and>
           list_view t request2 = Inr \<lparr>status = 200, data = Listing page2\<rparr> \<and>
           l_results page2 = map from_model (drop 20 (objects_all t)) \<and>
           length (l_results page2) = 5 \<and>
           l_next page2 = None \<and> l_previous page2 \<noteq> None \<and> l_count page2 = 25"
proof -
  have len: "length (objects_all t) = 25"
    using assms(1) by (simp add: length_objects_all)
  have p1: "list_view t request1 =
      Inr \<lparr>status = 200,
           data = Listing \<lparr>l_count = 25,
                            l_next = Some (build_absolute_uri request1 @ ''?page='' @ str_int 2),
                            l_previous = None,
                            l_results = map from_model (take 20 (objects_all t))\<rparr>\<rparr>"
    using assms(2) len by (simp add: list_view_def int_of_str_1 slice_def count_def)
  have p2: "list_view t request2 =
      Inr \<lparr>status = 200,
           data = Listing \<lparr>l_count = 25,
                            l_next = None,
                            l_previous =
                              Some (build_absolute_uri request2 @ ''?page='' @ str_int 1),
                            l_results = map from_model (drop 20 (objects_all t))\<rparr>\<rparr>"
    using assms(3) len by (simp add: list_view_def int_of_str_2 slice_def count_def)
  show ?thesis
    unfolding p1 p2 using len by simp
qed

theorem list_pagination_boundary_witness:
  "length (rows items25) = 25 \<and>
   GET \<lparr>GET = [''page'' \<mapsto> ''1''], build_absolute_uri = ''http://testserver/examples/?page=1''\<rparr>
     ''page'' = Some ''1'' \<and>
   GET \<lparr>GET = [''page'' \<mapsto> ''2''], build_absolute_uri = ''http://testserver/examples/?page=2''\<rparr>
     ''page'' = Some ''2'' \<and>
   (\<exists>page1 page2.
      list_view items25
        \<lparr>GET = [''page'' \<mapsto> ''1''], build_absolute_uri = ''http://testserver/examples/?page=1''\<rparr> =
        Inr \<lparr>status = 200, data = Listing page1\<rparr> \<and>
      l_results page1 = map from_model (take 20 (objects_all items25)) \<and>
      length (l_results page1) = 20 \<and>
      l_next page1 \<noteq> None \<and> l_previous page1 = None \<and> l_count page1 = 25 \<and>
      list_view items25
        \<lparr>GET = [''page'' \<mapsto> ''2''], build_absolute_uri = ''http://testserver/examples/?page=2''\<rparr> =
        Inr \<lparr>status = 200, data = Listing page2\<rparr> \<and>
      l_results page2 = map from_model (drop 20 (objects_all items25)) \<and>
      length (l_results page2) = 5 \<and>
      l_next page2 = None \<and> l_previous page2 \<noteq> None \<and> l_count page2 = 25)"
proof -
  have h1: "length (rows items25) = 25"
    by (simp add: items25_def)
  have h2: "GET \<lparr>GET = [''page'' \<mapsto> ''1''],
      build_absolute_uri = ''http://testserver/examples/?page=1''\<rparr> ''page'' = Some ''1''"
    by simp
  have h3: "GET \<lparr>GET = [''page'' \<mapsto> ''2''],
      build_absolute_uri = ''http://testserver/examples/?page=2''\<rparr> ''page'' = Some ''2''"
    by simp
  show ?thesis
    by (intro conjI h1 h2 h3 list_pagination_boundary [OF h1 h2 h3])
qed

subsection \<open>The page links\<close>

text \<open>
  C5, at an input where the code departs from it. The links are built by appending
  \<open>?page=N\<close> to \<open>request.build_absolute_uri()\<close>, which already ends in the query string of
  the request. A request for page 2 therefore gets a \<open>previous\<close> link with two question
  marks, whose query string is not the single parameter \<open>page=1\<close>.
\<close>

theorem list_view_previous_link:
  "list_view \<lparr>rows = [], next_id = 1\<rparr>
     \<lparr>GET = [''page'' \<mapsto> ''2''], build_absolute_uri = ''http://testserver/examples/?page=2''\<rparr> =
   Inr \<lparr>status = 200,
        data = Listing \<lparr>l_count = 0, l_next = None,
                         l_previous = Some ''http://testserver/examples/?page=2?page=1'',
                         l_results = []\<rparr>\<rparr>"
  by (simp add: list_view_def int_of_str_2 slice_def count_def objects_all_def str_int_def
      str_nat.simps)

subsection \<open>The response of a create\<close>

text \<open>
  A payload whose \<open>description\<close> is null is valid, and the response carries the empty
  string for it, not the payload's null. A payload whose \<open>is_active\<close> is the string
  \<open>yes\<close> is valid as well, and the response carries the boolean true for it.
\<close>

theorem create_null_description_counterexample:
  "accepted (ExampleCreateRequest [''name'' \<mapsto> JStr ''a'', ''description'' \<mapsto> JNull]) \<and>
   fst (create \<lparr>rows = [], next_id = 1\<rparr> 0 1 [''name'' \<mapsto> JStr ''a'', ''description'' \<mapsto> JNull]) =
     Inr \<lparr>status = 201,
          data = Item \<lparr>r_id = 1, r_name = ''a'', r_description = [], r_is_active = True,
                       r_created_at = 0, r_updated_at = 1\<rparr>\<rparr> \<and>
   \<not> spec_reproduces [''name'' \<mapsto> JStr ''a'', ''description'' \<mapsto> JNull]
       \<lparr>r_id = 1, r_name = ''a'', r_description = [], r_is_active = True,
        r_created_at = 0, r_updated_at = 1\<rparr> \<and>
   accepted (ExampleCreateRequest [''name'' \<mapsto> JStr ''a'', ''is_active'' \<mapsto> JStr ''yes'']) \<and>
   fst (create \<lparr>rows = [], next_id = 1\<rparr> 0 1
          [''name'' \<mapsto> JStr ''a'', ''is_active'' \<mapsto> JStr ''yes'']) =
     Inr \<lparr>status = 201,
          data = Item \<lparr>r_id = 1, r_name = ''a'', r_description = [], r_is_active = True,
                       r_created_at = 0, r_updated_at = 1\<rparr>\<rparr> \<and>
   \<not> spec_reproduces [''name'' \<mapsto> JStr ''a'', ''is_active'' \<mapsto> JStr ''yes'']
       \<lparr>r_id = 1, r_name = ''a'', r_description = [], r_is_active = True,
        r_created_at = 0, r_updated_at = 1\<rparr>"
  by (simp add: ExampleCreateRequest_def required_def with_default_def optional_def
      str_min_max_def accepted_def create_def objects_create_def from_model_def or_empty_def
      spec_reproduces_def Let_def lower_def)

text \<open>
  C6, as the code has it. For every payload that the Create schema accepts, \<open>create\<close>
  answers 201 with a body whose \<open>name\<close> is the payload's name exactly, whose
  \<open>description\<close> is the payload's description when that is a string and the empty string
  when the payload omits it or gives null, and whose \<open>is_active\<close> is the boolean that the
  payload's value validates to, true when the payload omits it.
\<close>

theorem create_round_trip:
  assumes "ExampleCreateRequest request_data = Inr v"
  shows "\<exists>resp. fst (create t now now' request_data) = Inr \<lparr>status = 201, data = Item resp\<rparr> \<and>
           request_data ''name'' = Some (JStr (r_name resp)) \<and>
           (case request_data ''description'' of
              None \<Rightarrow> r_description resp = []
            | Some d \<Rightarrow> if d = JNull then r_description resp = []
                        else d = JStr (r_description resp)) \<and>
           (case request_data ''is_active'' of
              None \<Rightarrow> r_is_active resp = True
            | Some a \<Rightarrow> bool_type ''is_active'' a = Inr (r_is_active resp))"
proof -
  let ?resp = "from_model (fst (objects_create t now now' (c_name v) (or_empty (c_description v))
                 (c_is_active v)))"
  note f = create_schema_fields [OF assms]
  have r: "fst (create t now now' request_data) = Inr \<lparr>status = 201, data = Item ?resp\<rparr>"
    using assms by (simp add: create_def split_def Let_def)
  have rn: "r_name ?resp = c_name v"
    and rd: "r_description ?resp = or_empty (c_description v)"
    and ra: "r_is_active ?resp = c_is_active v"
    by (simp_all add: from_model_def objects_create_def Let_def or_empty_def split: option.splits)
  have n: "request_data ''name'' = Some (JStr (c_name v))"
    using f by (auto simp: required_def split: option.splits dest: str_min_max_Inr)
  have d: "(case request_data ''description'' of
              None \<Rightarrow> or_empty (c_description v) = []
            | Some d \<Rightarrow> if d = JNull then or_empty (c_description v) = []
                        else d = JStr (or_empty (c_description v)))"
    using f
    by (auto simp: with_default_def optional_def or_empty_def
        split: option.splits sum.splits if_splits dest: str_type_Inr)
  have a: "(case request_data ''is_active'' of
              None \<Rightarrow> c_is_active v = True
            | Some a \<Rightarrow> bool_type ''is_active'' a = Inr (c_is_active v))"
    using f by (auto simp: with_default_def split: option.splits)
  show ?thesis
  proof (intro exI [of _ ?resp] conjI)
    show "fst (create t now now' request_data) = Inr \<lparr>status = 201, data = Item ?resp\<rparr>"
      by (rule r)
    show "request_data ''name'' = Some (JStr (r_name ?resp))"
      unfolding rn by (rule n)
    show "case request_data ''description'' of
            None \<Rightarrow> r_description ?resp = []
          | Some d \<Rightarrow> if d = JNull then r_description ?resp = []
                      else d = JStr (r_description ?resp)"
      unfolding rd by (rule d)
    show "case request_data ''is_active'' of
            None \<Rightarrow> r_is_active ?resp = True
          | Some a \<Rightarrow> bool_type ''is_active'' a = Inr (r_is_active ?resp)"
      unfolding ra by (rule a)
  qed
qed

text \<open>The payload of \<open>test_create_example\<close>, posted to the table of the tests.\<close>

theorem create_round_trip_witness:
  "ExampleCreateRequest
     [''name'' \<mapsto> JStr ''New Test Example'',
      ''description'' \<mapsto> JStr ''A newly created test example'',
      ''is_active'' \<mapsto> JBool True] =
     Inr \<lparr>c_name = ''New Test Example'',
          c_description = Some ''A newly created test example'', c_is_active = True\<rparr> \<and>
   (\<exists>resp. fst (create setUp 200 201
        [''name'' \<mapsto> JStr ''New Test Example'',
         ''description'' \<mapsto> JStr ''A newly created test example'',
         ''is_active'' \<mapsto> JBool True]) = Inr \<lparr>status = 201, data = Item resp\<rparr> \<and>
      r_name resp = ''New Test Example'' \<and>
      r_description resp = ''A newly created test example'' \<and>
      r_is_active resp = True)"
proof -
  have h: "ExampleCreateRequest
     [''name'' \<mapsto> JStr ''New Test Example'',
      ''description'' \<mapsto> JStr ''A newly created test example'',
      ''is_active'' \<mapsto> JBool True] =
     Inr \<lparr>c_name = ''New Test Example'',
          c_description = Some ''A newly created test example'', c_is_active = True\<rparr>"
    by (simp add: ExampleCreateRequest_def required_def with_default_def optional_def
        str_min_max_def)
  from create_round_trip [OF h, of setUp 200 201]
  have "\<exists>resp. fst (create setUp 200 201
        [''name'' \<mapsto> JStr ''New Test Example'',
         ''description'' \<mapsto> JStr ''A newly created test example'',
         ''is_active'' \<mapsto> JBool True]) = Inr \<lparr>status = 201, data = Item resp\<rparr> \<and>
      r_name resp = ''New Test Example'' \<and>
      r_description resp = ''A newly created test example'' \<and>
      r_is_active resp = True"
    by auto
  with h show ?thesis by (rule conjI)
qed

subsection \<open>Update of the name alone\<close>

text \<open>
  \<open>save\<close> stamps \<open>updated_at\<close> with the clock reading of the save. When the clock reads
  what it read at the previous save (100 here), \<open>updated_at\<close> stays as it was and does not
  strictly increase. And a payload that supplies only an empty \<open>name\<close> is answered with
  400 and changes nothing.
\<close>

theorem update_same_clock_reading_counterexample:
  "update \<lparr>rows = [\<lparr>m_id = 1, m_name = ''old'', m_description = ''d'', m_is_active = True,
                    m_created_at = 100, m_updated_at = 100\<rparr>], next_id = 2\<rparr>
     100 ''1'' [''name'' \<mapsto> JStr ''new''] =
     (Inr \<lparr>status = 200,
           data = Item \<lparr>r_id = 1, r_name = ''new'', r_description = ''d'', r_is_active = True,
                        r_created_at = 100, r_updated_at = 100\<rparr>\<rparr>,
      \<lparr>rows = [\<lparr>m_id = 1, m_name = ''new'', m_description = ''d'', m_is_active = True,
                m_created_at = 100, m_updated_at = 100\<rparr>], next_id = 2\<rparr>) \<and>
   \<not> spec_partial_update
       \<lparr>m_id = 1, m_name = ''old'', m_description = ''d'', m_is_active = True,
        m_created_at = 100, m_updated_at = 100\<rparr>
       \<lparr>m_id = 1, m_name = ''new'', m_description = ''d'', m_is_active = True,
        m_created_at = 100, m_updated_at = 100\<rparr> ''new'' \<and>
   update \<lparr>rows = [\<lparr>m_id = 1, m_name = ''old'', m_description = ''d'', m_is_active = True,
                    m_created_at = 100, m_updated_at = 100\<rparr>], next_id = 2\<rparr>
     200 ''1'' [''name'' \<mapsto> JStr []] =
     (Inr \<lparr>status = 400,
           data = ValidationErrors [\<lparr>e_type = ''string_too_short'', e_loc = [''name'']\<rparr>]\<rparr>,
      \<lparr>rows = [\<lparr>m_id = 1, m_name = ''old'', m_description = ''d'', m_is_active = True,
                m_created_at = 100, m_updated_at = 100\<rparr>], next_id = 2\<rparr>)"
  by (simp add: update_def objects_get_def int_of_str_1 ExampleUpdateRequest_def
      with_default_def optional_def str_min_max_def save_def from_model_def or_empty_def Let_def
      spec_partial_update_def err_def errors_def)

text \<open>
  C7, as the code has it. For every existing record, an update whose payload supplies only
  \<open>name\<close>, a string of 1 to 255 characters, answers 200, changes the stored \<open>name\<close> to the
  supplied value, leaves \<open>description\<close>, \<open>is_active\<close>, \<open>id\<close> and \<open>created_at\<close> as they
  were, leaves every other row alone, and sets \<open>updated_at\<close> to the clock reading of the
  save; \<open>updated_at\<close> strictly increases exactly when that reading is later than the stored
  value.
\<close>

theorem update_name_only:
  assumes "objects_get t pk = Inr r"
    and "request_data ''name'' = Some (JStr n)" and "1 \<le> length n" and "length n \<le> 255"
    and "request_data ''description'' = None" and "request_data ''is_active'' = None"
  shows "\<exists>r' t'. update t now pk request_data =
             (Inr \<lparr>status = 200, data = Item (from_model r')\<rparr>, t') \<and>
           objects_get t' pk = Inr r' \<and>
           rows t' = map (\<lambda>x. if m_id x = m_id r then r' else x) (rows t) \<and>
           m_name r' = n \<and>
           m_description r' = m_description r \<and>
           m_is_active r' = m_is_active r \<and>
           m_id r' = m_id r \<and>
           m_created_at r' = m_created_at r \<and>
           m_updated_at r' = now \<and>
           (m_updated_at r < m_updated_at r') = (m_updated_at r < now)"
proof -
  let ?v = "\<lparr>u_name = Some n, u_description = None, u_is_active = None\<rparr>"
  let ?r' = "(assigned ?v r)\<lparr>m_updated_at := now\<rparr>"
  let ?t' = "t\<lparr>rows := map (\<lambda>x. if m_id x = m_id r then ?r' else x) (rows t)\<rparr>"
  have v: "ExampleUpdateRequest request_data = Inr ?v"
    using assms(2-6) by (rule update_schema_name_only)
  have u: "update t now pk request_data =
      (Inr \<lparr>status = 200, data = Item (from_model ?r')\<rparr>, ?t')"
    using assms(1) v by (rule update_valid)
  have g: "objects_get ?t' pk = Inr ?r'"
    using assms(1) by (rule objects_get_replaced) (simp add: assigned_id)
  show ?thesis
  proof (intro exI [of _ ?r'] exI [of _ ?t'] conjI)
    show "update t now pk request_data =
        (Inr \<lparr>status = 200, data = Item (from_model ?r')\<rparr>, ?t')"
      by (rule u)
    show "objects_get ?t' pk = Inr ?r'"
      by (rule g)
  qed (simp_all add: assigned_def)
qed

text \<open>The payload of \<open>test_partial_update_example\<close>, put to the first item of the tests.\<close>

theorem update_name_only_witness:
  "objects_get setUp ''1'' = Inr example1 \<and>
   [''name'' \<mapsto> JStr ''Partially Updated''] ''name'' = Some (JStr ''Partially Updated'') \<and>
   1 \<le> length ''Partially Updated'' \<and> length ''Partially Updated'' \<le> 255 \<and>
   [''name'' \<mapsto> JStr ''Partially Updated''] ''description'' = None \<and>
   [''name'' \<mapsto> JStr ''Partially Updated''] ''is_active'' = None \<and>
   (\<exists>r' t'. update setUp 200 ''1'' [''name'' \<mapsto> JStr ''Partially Updated''] =
        (Inr \<lparr>status = 200, data = Item (from_model r')\<rparr>, t') \<and>
      objects_get t' ''1'' = Inr r' \<and>
      rows t' = map (\<lambda>x. if m_id x = m_id example1 then r' else x) (rows setUp) \<and>
      m_name r' = ''Partially Updated'' \<and>
      m_description r' = m_description example1 \<and>
      m_is_active r' = m_is_active example1 \<and>
      m_id r' = m_id example1 \<and>
      m_created_at r' = m_created_at example1 \<and>
      m_updated_at r' = 200 \<and>
      (m_updated_at example1 < m_updated_at r') = (m_updated_at example1 < 200))"
proof -
  have h1: "objects_get setUp ''1'' = Inr example1"
    by (rule objects_get_example1)
  have h2: "[''name'' \<mapsto> JStr ''Partially Updated''] ''name'' = Some (JStr ''Partially Updated'')"
    by simp
  have h3: "1 \<le> length ''Partially Updated''"
    by simp
  have h4: "length ''Partially Updated'' \<le> 255"
    by simp
  have h5: "[''name'' \<mapsto> JStr ''Partially Updated''] ''description'' = None"
    by simp
  have h6: "[''name'' \<mapsto> JStr ''Partially Updated''] ''is_active'' = None"
    by simp
  show ?thesis
    by (intro conjI h1 h2 h3 h4 h5 h6 update_name_only [OF h1 h2 h3 h4 h5 h6])
qed

subsection \<open>Create with an empty name\<close>

text \<open>
  C8. A create whose \<open>name\<close> is the empty string, whatever else the payload holds, answers
  400 with the list of validation errors (the body under the key \<open>validation_errors\<close>);
  the list holds an error located at the field \<open>name\<close>, and the table is returned as it
  was.
\<close>

theorem create_empty_name_is_400:
  assumes "request_data ''name'' = Some (JStr [])"
  shows "\<exists>errs. create t now now' request_data =
            (Inr \<lparr>status = 400, data = ValidationErrors errs\<rparr>, t) \<and>
          \<lparr>e_type = ''string_too_short'', e_loc = [''name'']\<rparr> \<in> set errs \<and>
          status_code (fst (create t now now' request_data)) = 400"
proof -
  have "required ''name'' (str_min_max ''name'' 1 255) request_data =
      Inl [\<lparr>e_type = ''string_too_short'', e_loc = [''name'']\<rparr>]"
    using assms by (simp add: required_def str_min_max_def err_def)
  then obtain errs where
    "ExampleCreateRequest request_data =
       Inl (\<lparr>e_type = ''string_too_short'', e_loc = [''name'']\<rparr> # errs)"
    by (simp add: ExampleCreateRequest_def Let_def errors_def)
  then show ?thesis
    by (simp add: create_def status_code_def)
qed

text \<open>The payload of \<open>test_create_example_validation_error\<close>.\<close>

theorem create_empty_name_is_400_witness:
  "[''name'' \<mapsto> JStr [], ''description'' \<mapsto> JStr ''Test description'',
    ''is_active'' \<mapsto> JBool True] ''name'' = Some (JStr []) \<and>
   (\<exists>errs. create setUp 200 201
        [''name'' \<mapsto> JStr [], ''description'' \<mapsto> JStr ''Test description'',
         ''is_active'' \<mapsto> JBool True] =
        (Inr \<lparr>status = 400, data = ValidationErrors errs\<rparr>, setUp) \<and>
      \<lparr>e_type = ''string_too_short'', e_loc = [''name'']\<rparr> \<in> set errs \<and>
      status_code (fst (create setUp 200 201
        [''name'' \<mapsto> JStr [], ''description'' \<mapsto> JStr ''Test description'',
         ''is_active'' \<mapsto> JBool True])) = 400)"
proof -
  have h: "[''name'' \<mapsto> JStr [], ''description'' \<mapsto> JStr ''Test description'',
    ''is_active'' \<mapsto> JBool True] ''name'' = Some (JStr [])"
    by simp
  show ?thesis
    by (intro conjI h
        create_empty_name_is_400 [where request_data = "[''name'' \<mapsto> JStr [],
          ''description'' \<mapsto> JStr ''Test description'', ''is_active'' \<mapsto> JBool True]", OF h])
qed

subsection \<open>Delete of a record that does not exist\<close>

text \<open>
  When \<open>pk\<close> reads as a number and no record of the table has that id, \<open>destroy\<close> raises
  \<open>Http404\<close>, which the client sees as status 404 and not as the 204 of a delete; the
  table is returned as it was, so every record and the total count are unchanged.
\<close>

lemma destroy_missing_number:
  assumes "int_of_str pk = Some i" and "i \<notin> set (map m_id (rows t))"
  shows "destroy t pk = (Inl Http404, t) \<and>
         status_code (fst (destroy t pk)) = 404 \<and>
         count (objects_all (snd (destroy t pk))) = count (objects_all t)"
  using objects_get_missing [OF assms] by (simp add: destroy_def status_code_def)

lemma destroy_missing_999:
  "destroy setUp ''999'' = (Inl Http404, setUp) \<and>
   status_code (fst (destroy setUp ''999'')) = 404 \<and>
   count (objects_all (snd (destroy setUp ''999''))) = count (objects_all setUp)"
  by (rule destroy_missing_number [OF int_of_str_999 setUp_no_999])

text \<open>
  C9, at an input where the code departs from it. The path segment \<open>abc\<close> is no number,
  so it is the id of no record, in any table. \<open>objects.get\<close> raises \<open>ValueError\<close> for it,
  \<open>destroy\<close> catches \<open>DoesNotExist\<close> only, and the client gets status 500 where the
  claim says 404. Nothing is deleted: the table is returned as it was.
\<close>

theorem destroy_not_a_number:
  "int_of_str ''abc'' = None \<and>
   destroy t ''abc'' = (Inl ValueError, t) \<and>
   status_code (fst (destroy t ''abc'')) = 500 \<and>
   count (objects_all (snd (destroy t ''abc''))) = count (objects_all t)"
  using objects_get_not_a_number [OF int_of_str_abc, of t]
  by (simp add: int_of_str_abc destroy_def status_code_def)

subsection \<open>Null in an update\<close>

text \<open>
  C10. In \<open>update\<close>, a payload that sets a field to null gives the same outcome and the
  same table as the payload without that field. The stored \<open>description\<close> after an update
  of an existing record is the one stored before or the string the payload supplies, so
  null never reaches it; the empty string does, when the payload supplies it.
\<close>

theorem update_null_is_omitted:
  "update t now pk (request_data(k \<mapsto> JNull)) = update t now pk (request_data(k := None)) \<and>
   (objects_get t pk = Inr r \<longrightarrow>
      (\<exists>r'. objects_get (snd (update t now pk request_data)) pk = Inr r' \<and>
         (m_description r' = m_description r \<or>
          request_data ''description'' = Some (JStr (m_description r'))))) \<and>
   (objects_get t pk = Inr r \<longrightarrow>
      objects_get (snd (update t now pk [''description'' \<mapsto> JStr []])) pk =
        Inr (r\<lparr>m_description := [], m_updated_at := now\<rparr>))"
proof (intro conjI impI)
  show "update t now pk (request_data(k \<mapsto> JNull)) = update t now pk (request_data(k := None))"
    unfolding update_def update_schema_null ..
next
  assume r: "objects_get t pk = Inr r"
  show "\<exists>r'. objects_get (snd (update t now pk request_data)) pk = Inr r' \<and>
         (m_description r' = m_description r \<or>
          request_data ''description'' = Some (JStr (m_description r')))"
  proof (cases "ExampleUpdateRequest request_data")
    case (Inl e)
    then show ?thesis
      using r by (simp add: update_invalid [OF r Inl])
  next
    case (Inr v)
    let ?r' = "(assigned v r)\<lparr>m_updated_at := now\<rparr>"
    have g: "objects_get (snd (update t now pk request_data)) pk = Inr ?r'"
      unfolding update_valid [OF r Inr] snd_conv
      using r by (rule objects_get_replaced) (simp add: assigned_id)
    have "with_default ''description'' None (optional (str_type ''description'')) request_data =
        Inr (u_description v)"
      using Inr by (auto simp: ExampleUpdateRequest_def Let_def split: sum.splits)
    then have "u_description v = None \<or>
        (\<exists>d. u_description v = Some d \<and> request_data ''description'' = Some (JStr d))"
      by (auto simp: with_default_def optional_def
          split: option.splits sum.splits if_splits dest: str_type_Inr)
    then have "m_description ?r' = m_description r \<or>
        request_data ''description'' = Some (JStr (m_description ?r'))"
      by (auto simp: assigned_def)
    with g show ?thesis by blast
  qed
next
  assume r: "objects_get t pk = Inr r"
  let ?v = "\<lparr>u_name = None, u_description = Some [], u_is_active = None\<rparr>"
  have v: "ExampleUpdateRequest [''description'' \<mapsto> JStr []] = Inr ?v"
    by (simp add: ExampleUpdateRequest_def with_default_def optional_def)
  have a: "(assigned ?v r)\<lparr>m_updated_at := now\<rparr> = r\<lparr>m_description := [], m_updated_at := now\<rparr>"
    by (simp add: assigned_def)
  show "objects_get (snd (update t now pk [''description'' \<mapsto> JStr []])) pk =
      Inr (r\<lparr>m_description := [], m_updated_at := now\<rparr>)"
    unfolding update_valid [OF r v] snd_conv a
    using r by (rule objects_get_replaced) simp
qed

text \<open>
  On the first item of the tests: a null \<open>description\<close> beside a new name, and the empty
  string as \<open>description\<close>.
\<close>

theorem update_null_is_omitted_witness:
  "objects_get setUp ''1'' = Inr example1 \<and>
   update setUp 200 ''1'' [''name'' \<mapsto> JStr ''n'', ''description'' \<mapsto> JNull] =
     update setUp 200 ''1'' ([''name'' \<mapsto> JStr ''n''](''description'' := None)) \<and>
   (\<exists>r'. objects_get
        (snd (update setUp 200 ''1'' [''name'' \<mapsto> JStr ''n'', ''description'' \<mapsto> JNull])) ''1'' =
        Inr r' \<and>
      m_description r' = ''First test example'') \<and>
   objects_get (snd (update setUp 200 ''1'' [''description'' \<mapsto> JStr []])) ''1'' =
     Inr (example1\<lparr>m_description := [], m_updated_at := 200\<rparr>)"
proof -
  have h: "objects_get setUp ''1'' = Inr example1"
    by (rule objects_get_example1)
  have d: "m_description example1 = ''First test example''"
    by (simp add: example1_def)
  note u1 = update_null_is_omitted [of setUp 200 "''1''" "[''name'' \<mapsto> JStr ''n'']" "''description''"
      example1]
  note u2 = update_null_is_omitted [of setUp 200 "''1''"
      "[''name'' \<mapsto> JStr ''n'', ''description'' \<mapsto> JNull]" "''description''" example1]
  have a: "update setUp 200 ''1'' [''name'' \<mapsto> JStr ''n'', ''description'' \<mapsto> JNull] =
     update setUp 200 ''1'' ([''name'' \<mapsto> JStr ''n''](''description'' := None))"
    using u1 by blast
  have b: "\<exists>r'. objects_get
        (snd (update setUp 200 ''1'' [''name'' \<mapsto> JStr ''n'', ''description'' \<mapsto> JNull])) ''1'' =
        Inr r' \<and>
      m_description r' = ''First test example''"
    using u2 h d by auto
  have c: "objects_get (snd (update setUp 200 ''1'' [''description'' \<mapsto> JStr []])) ''1'' =
     Inr (example1\<lparr>m_description := [], m_updated_at := 200\<rparr>)"
    using u1 h by blast
  show ?thesis
    by (intro conjI h a b c)
qed

end
